theory Spec2Isabelle
  imports Complex_Main "HOL-Library.Log_Nat"
begin

section \<open>Personal Ephemeris: a shallow embedding of ephemeris.py\<close>

text \<open>
  The script is sequential glue over the PyEphem library. The embedding keeps the
  script's own logic (branching, exception handlers, loops, string formatting) and
  takes every library routine as a field of one record, \<open>ephem\<close>, so that each
  theorem holds for every behaviour of the library.

  Conventions of the embedding:
  \<^item> A Python float is the \<open>real\<close> number it denotes. Every arithmetic operation of
    the script on floats is the exact operation followed by rounding to the nearest
    double, ties to even (\<open>round_double\<close>); comparison is the comparison of the
    values. The exponent range is not bounded: overflow and subnormal numbers are
    outside the embedding.
  \<^item> Python ints are \<open>int\<close>, strings are \<open>string\<close>.
  \<^item> Standard output is the list of the payloads of the \<open>print\<close> calls, in order.
  \<^item> An exception is a value of \<open>py_error\<close>; a computation ends with a returned
    value, a raised exception or a process exit.
  \<^item> A mutable library object (a body) is passed in and returned updated.
\<close>

subsection \<open>Python string formatting\<close>

definition digit_char :: "nat \<Rightarrow> char" where
  "digit_char d = ''0123456789'' ! d"

fun nat_digits :: "nat \<Rightarrow> string" where
  "nat_digits n =
     (if n < 10 then [digit_char n] else nat_digits (n div 10) @ [digit_char (n mod 10)])"

declare nat_digits.simps [simp del]

text \<open>\<open>str(n)\<close> for an int.\<close>

definition str_int :: "int \<Rightarrow> string" where
  "str_int n = (if n < 0 then CHR ''-'' # nat_digits (nat (- n)) else nat_digits (nat n))"

definition pad_left :: "char \<Rightarrow> nat \<Rightarrow> string \<Rightarrow> string" where
  "pad_left c w s = replicate (w - length s) c @ s"

definition pad_right :: "char \<Rightarrow> nat \<Rightarrow> string \<Rightarrow> string" where
  "pad_right c w s = s @ replicate (w - length s) c"

text \<open>\<open>{:wd}\<close>: right-aligned in \<open>w\<close> columns, filled with blanks.\<close>

definition fmt_d :: "nat \<Rightarrow> int \<Rightarrow> string" where
  "fmt_d w n = pad_left CHR '' '' w (str_int n)"

text \<open>\<open>{:0wd}\<close>: zero-filled to \<open>w\<close> columns, the zeros after the sign.\<close>

definition fmt_0d :: "nat \<Rightarrow> int \<Rightarrow> string" where
  "fmt_0d w n =
     (if n < 0 then CHR ''-'' # pad_left CHR ''0'' (w - 1) (nat_digits (nat (- n)))
      else pad_left CHR ''0'' w (nat_digits (nat n)))"

text \<open>\<open>{:ws}\<close>: left-aligned in \<open>w\<close> columns, filled with blanks, never cut.\<close>

definition fmt_s :: "nat \<Rightarrow> string \<Rightarrow> string" where
  "fmt_s w s = pad_right CHR '' '' w s"

text \<open>\<open>{:.<19.19s}\<close>: cut to 19 characters, left-aligned, filled with dots.\<close>

definition fmt_name :: "string \<Rightarrow> string" where
  "fmt_name s = pad_right CHR ''.'' 19 (take 19 s)"

text \<open>
  Fixed-point rendering of a float, \<open>{:.pf}\<close>: the value is rounded to \<open>p\<close> decimals,
  ties to the even neighbour; the sign is the sign of the value.
\<close>

definition round_half_even :: "real \<Rightarrow> int" where
  "round_half_even x =
     (let f = \<lfloor>x\<rfloor>; d = x - real_of_int f
      in if d < 1 / 2 then f else if 1 / 2 < d then f + 1 else if even f then f else f + 1)"

definition fixed_digits :: "nat \<Rightarrow> real \<Rightarrow> string" where
  "fixed_digits p x =
     (let n = nat (round_half_even (\<bar>x\<bar> * 10 ^ p))
      in nat_digits (n div 10 ^ p) @
         (if p = 0 then [] else CHR ''.'' # pad_left CHR ''0'' p (nat_digits (n mod 10 ^ p))))"

definition fmt_f :: "nat \<Rightarrow> real \<Rightarrow> string" where
  "fmt_f p x = (if x < 0 then CHR ''-'' # fixed_digits p x else fixed_digits p x)"

text \<open>\<open>{:w.pf}\<close> and \<open>{:0w.pf}\<close>.\<close>

definition fmt_wf :: "nat \<Rightarrow> nat \<Rightarrow> real \<Rightarrow> string" where
  "fmt_wf w p x = pad_left CHR '' '' w (fmt_f p x)"

definition fmt_0wf :: "nat \<Rightarrow> nat \<Rightarrow> real \<Rightarrow> string" where
  "fmt_0wf w p x =
     (if x < 0 then CHR ''-'' # pad_left CHR ''0'' (w - 1) (fixed_digits p x)
      else pad_left CHR ''0'' w (fixed_digits p x))"

text \<open>\<open>int(x)\<close> of a float: truncation toward zero.\<close>

definition py_int :: "real \<Rightarrow> int" where
  "py_int x = (if 0 \<le> x then \<lfloor>x\<rfloor> else \<lceil>x\<rceil>)"

subsection \<open>Double arithmetic\<close>

text \<open>
  \<open>exponent_of x\<close> is the binary exponent of a non-zero \<open>x\<close>, the integer \<open>e\<close> with
  \<open>2\<^sup>e \<le> \<bar>x\<bar> < 2\<^sup>e\<^sup>+\<^sup>1\<close>, computed from the bit length of an integer. A double
  with that exponent is a multiple of \<open>2\<^sup>e\<^sup>-\<^sup>5\<^sup>2\<close>; \<open>round_double\<close> takes the nearest
  multiple, a tie to the even one.
\<close>

definition exponent_of :: "real \<Rightarrow> int" where
  "exponent_of x =
     (if 1 \<le> \<bar>x\<bar> then bitlen \<lfloor>\<bar>x\<bar>\<rfloor> - 1 else - bitlen (\<lceil>1 / \<bar>x\<bar>\<rceil> - 1))"

definition round_double :: "real \<Rightarrow> real" where
  "round_double x =
     (if x = 0 then 0
      else let u = 2 powi (exponent_of x - 52)
           in real_of_int (round_half_even (x / u)) * u)"

text \<open>The float operations \<open>+\<close>, \<open>-\<close>, \<open>*\<close> and \<open>/\<close> (with a non-zero divisor).\<close>

definition fadd :: "real \<Rightarrow> real \<Rightarrow> real" where
  "fadd x y = round_double (x + y)"

definition fsub :: "real \<Rightarrow> real \<Rightarrow> real" where
  "fsub x y = round_double (x - y)"

definition fmul :: "real \<Rightarrow> real \<Rightarrow> real" where
  "fmul x y = round_double (x * y)"

definition fdiv :: "real \<Rightarrow> real \<Rightarrow> real" where
  "fdiv x y = round_double (x / y)"

text \<open>\<open>math.pi\<close> is the double nearest to the circle constant; this is its exact value.\<close>

definition math_pi :: real where
  "math_pi = 884279719003555 / 281474976710656"

subsection \<open>Data\<close>

datatype py_error =
    KeyError | CircumpolarError | ValueError | TypeError | AttributeError
  | ZeroDivisionError

text \<open>A Python \<open>datetime\<close>, as far as the script reads it.\<close>

record datetime =
  dt_year :: int
  dt_month :: int
  dt_day :: int
  dt_hour :: int
  dt_minute :: int
  dt_second :: int

text \<open>An \<open>ephem.Observer\<close>: the site and the instant of observation.\<close>

record observer =
  o_name :: string
  o_lat :: real
  o_lon :: real
  o_elevation :: real
  o_pressure :: real
  o_date :: real

text \<open>
  An \<open>ephem.Body\<close>: the attributes the script reads, valid after a compute against an
  observer, and the orbital data the library keeps inside the object.
\<close>

record 'e body =
  b_name :: string
  b_alt :: real
  b_az :: real
  b_mag :: real
  b_ra :: real
  b_dec :: real
  b_moon_phase :: real
  b_elements :: 'e

text \<open>
  The result of \<open>Observer.next_pass\<close>: rise time, rise azimuth, time of maximum
  altitude, maximum altitude, set time, set azimuth; an event the library did not find
  is \<open>None\<close>.
\<close>

type_synonym pass_info =
  "real option \<times> real option \<times> real option \<times> real option \<times> real option \<times> real option"

text \<open>
  The library. A query that may raise returns \<open>py_error + _\<close>; a rise or set query also
  returns the body as the query leaves it (it moves the body to the instant found).
  \<open>ephem_Observer\<close> is a fresh observer before its date is stamped; \<open>pressure_at\<close> is
  the pressure \<open>compute_pressure\<close> derives from an elevation; \<open>angle_of_string\<close> is the
  conversion applied when a string is assigned to \<open>lat\<close> or \<open>lon\<close>; \<open>num_str\<close> is
  Python's \<open>str\<close> of a JSON number.
\<close>

record 'e ephem =
  ephem_city :: "string \<Rightarrow> py_error + observer"
  ephem_Observer :: observer
  angle_of_string :: "string \<Rightarrow> py_error + real"
  pressure_at :: "real \<Rightarrow> real"
  num_str :: "real \<Rightarrow> string"
  ephem_Date :: "string \<Rightarrow> py_error + real"
  ephem_localtime :: "real \<Rightarrow> datetime"
  date_tuple :: "real \<Rightarrow> int \<times> int \<times> int \<times> int \<times> int \<times> real"
  ephem_Sun :: "observer \<Rightarrow> 'e body"
  ephem_Moon :: "observer \<Rightarrow> 'e body"
  ephem_Mercury :: "'e body"
  ephem_Venus :: "'e body"
  ephem_Mars :: "'e body"
  ephem_Jupiter :: "'e body"
  ephem_Saturn :: "'e body"
  ephem_Uranus :: "'e body"
  ephem_Neptune :: "'e body"
  ephem_Pluto :: "'e body"
  body_compute :: "'e body \<Rightarrow> observer \<Rightarrow> 'e body"
  previous_rising :: "observer \<Rightarrow> 'e body \<Rightarrow> (py_error + real) \<times> 'e body"
  next_rising :: "observer \<Rightarrow> 'e body \<Rightarrow> (py_error + real) \<times> 'e body"
  next_setting :: "observer \<Rightarrow> 'e body \<Rightarrow> (py_error + real) \<times> 'e body"
  previous_new_moon :: "real \<Rightarrow> real"
  next_new_moon :: "real \<Rightarrow> real"
  next_first_quarter_moon :: "real \<Rightarrow> real"
  next_full_moon :: "real \<Rightarrow> real"
  next_last_quarter_moon :: "real \<Rightarrow> real"
  previous_first_quarter_moon :: "real \<Rightarrow> real"
  previous_full_moon :: "real \<Rightarrow> real"
  previous_last_quarter_moon :: "real \<Rightarrow> real"
  ephem_separation :: "real \<times> real \<Rightarrow> real \<times> real \<Rightarrow> real"
  ephem_readdb :: "string \<Rightarrow> py_error + 'e body"
  ephem_readtle :: "string \<Rightarrow> string \<Rightarrow> string \<Rightarrow> py_error + 'e body"
  next_pass :: "observer \<Rightarrow> 'e body \<Rightarrow> (py_error + pass_info) \<times> 'e body"

text \<open>
  The configuration document \<open>objects.json\<close> after \<open>json.load\<close>. Every top-level key
  is optional; the entries have the fields of the documented schema. A latitude or
  longitude is a JSON number or a JSON string.
\<close>

datatype json_scalar = JNum real | JStr string

record city_entry =
  ce_name :: string
  ce_latitude :: json_scalar
  ce_longitude :: json_scalar
  ce_elevation :: real

record comet_entry =
  cm_display :: bool
  cm_db_info :: string

record satellite_entry =
  st_display :: bool
  st_name :: string
  st_tle_line1 :: string
  st_tle_line2 :: string

record config =
  cfg_cities :: "city_entry list option"
  cfg_default_city :: "string option"
  cfg_comets :: "comet_entry list option"
  cfg_satellites :: "satellite_entry list option"

text \<open>The parsed command line: \<open>--city\<close> and \<open>--date\<close>, each absent or a string.\<close>

record args =
  arg_city :: "string option"
  arg_date :: "string option"

subsection \<open>Computations that print, raise or exit\<close>

datatype 'a result = Ok 'a | Raised py_error | Exited int

type_synonym 'a io = "string list \<Rightarrow> 'a result \<times> string list"

definition io_return :: "'a \<Rightarrow> 'a io" where
  "io_return x = (\<lambda>out. (Ok x, out))"

definition io_raise :: "py_error \<Rightarrow> 'a io" where
  "io_raise e = (\<lambda>out. (Raised e, out))"

definition io_exit :: "int \<Rightarrow> 'a io" where
  "io_exit n = (\<lambda>out. (Exited n, out))"

definition io_print :: "string \<Rightarrow> unit io" where
  "io_print s = (\<lambda>out. (Ok (), out @ [s]))"

definition io_bind :: "'a io \<Rightarrow> ('a \<Rightarrow> 'b io) \<Rightarrow> 'b io" where
  "io_bind m f =
     (\<lambda>out. case m out of
        (Ok x, out') \<Rightarrow> f x out'
      | (Raised e, out') \<Rightarrow> (Raised e, out')
      | (Exited n, out') \<Rightarrow> (Exited n, out'))"

definition io_seq :: "unit io \<Rightarrow> 'a io \<Rightarrow> 'a io" where
  "io_seq m k = io_bind m (\<lambda>_. k)"

text \<open>A library call that may raise.\<close>

definition io_lift :: "py_error + 'a \<Rightarrow> 'a io" where
  "io_lift r = (case r of Inl e \<Rightarrow> io_raise e | Inr x \<Rightarrow> io_return x)"

text \<open>
  \<open>try: m except E: h\<close>, where \<open>handles e\<close> says whether \<open>E\<close> matches the exception.
  What the body printed before it raised stays printed.
\<close>

definition io_try :: "'a io \<Rightarrow> (py_error \<Rightarrow> bool) \<Rightarrow> 'a io \<Rightarrow> 'a io" where
  "io_try m handles h =
     (\<lambda>out. case m out of
        (Raised e, out') \<Rightarrow> if handles e then h out' else (Raised e, out')
      | r \<Rightarrow> r)"

subsection \<open>The formatting functions of the script\<close>

definition fmt_ra :: "real \<Rightarrow> string" where
  "fmt_ra angle =
     (let hf = fdiv (fmul 12 angle) math_pi;
          h = py_int hf;
          m = fmul (fsub hf (real_of_int h)) 60
      in fmt_d 2 h @ ''h'' @ fmt_f 0 m @ ''m'')"

definition fmt_fulldatetime :: "datetime \<Rightarrow> string" where
  "fmt_fulldatetime dttm =
     fmt_0d 2 (dt_month dttm) @ ''/'' @ fmt_0d 2 (dt_day dttm) @ ''/'' @
     fmt_0d 2 (dt_year dttm) @ '' '' @ fmt_0d 2 (dt_hour dttm) @ '':'' @
     fmt_0d 2 (dt_minute dttm) @ '':'' @ fmt_0d 2 (dt_second dttm)"

definition fmt_datetime :: "datetime \<Rightarrow> string" where
  "fmt_datetime dttm =
     fmt_0d 2 (dt_month dttm) @ ''/'' @ fmt_0d 2 (dt_day dttm) @ '' '' @
     fmt_0d 2 (dt_hour dttm) @ '':'' @ fmt_0d 2 (dt_minute dttm)"

text \<open>\<open>a = 180 * a / math.pi\<close>, the first line of \<open>fmt_angle\<close>.\<close>

definition to_degrees :: "real \<Rightarrow> real" where
  "to_degrees a = fdiv (fmul 180 a) math_pi"

definition fmt_angle :: "real \<Rightarrow> string" where
  "fmt_angle a0 =
     (let a = to_degrees a0;
          deg = py_int a;
          mn = py_int (fadd (fmul (fsub a (real_of_int deg)) 60) 0.5)
      in fmt_d 3 deg @ '':'' @ fmt_0d 2 mn)"

definition fmt_date :: "'e ephem \<Rightarrow> real \<Rightarrow> string" where
  "fmt_date lib date =
     (case date_tuple lib date of (y, mo, d, h, mi, s) \<Rightarrow>
        fmt_0d 2 mo @ ''/'' @ fmt_0d 2 d @ ''/'' @ fmt_0d 2 y @ '' '' @
        fmt_0d 2 h @ '':'' @ fmt_0d 2 mi @ '':'' @ fmt_0wf 4 1 s)"

definition fmt_shortdate :: "'e ephem \<Rightarrow> real \<Rightarrow> string" where
  "fmt_shortdate lib date =
     (case date_tuple lib date of (y, mo, d, h, mi, s) \<Rightarrow>
        fmt_0d 2 mo @ ''/'' @ fmt_0d 2 d @ '' '' @ fmt_0d 2 h @ '':'' @ fmt_0d 2 mi)"

subsection \<open>The visibility reporter\<close>

text \<open>The two rows \<open>print_visinfo\<close> can print: the format calls of its two branches.\<close>

definition visible_row :: "'e body \<Rightarrow> string \<Rightarrow> string \<Rightarrow> string" where
  "visible_row body r_time s_time =
     fmt_name (b_name body) @ ''| Yes | '' @ fmt_angle (b_alt body) @ '' | '' @
     fmt_angle (b_az body) @ '' | '' @ r_time @ '' | '' @ s_time @ '' | '' @
     fmt_wf 5 1 (b_mag body) @ '' | '' @ fmt_ra (b_ra body) @ '' | '' @
     fmt_angle (b_dec body) @ '' |''"

definition hidden_row :: "'e body \<Rightarrow> string \<Rightarrow> string \<Rightarrow> string" where
  "hidden_row body r_time s_time =
     fmt_name (b_name body) @ ''| No  |   ---  |   ---  | '' @ r_time @ '' | '' @
     s_time @ '' |  ---  |  ----  |  ----  |''"

text \<open>
  A rise or set query under \<open>try ... except ephem.CircumpolarError\<close>: the formatted
  local time, or the label when the query raises \<open>CircumpolarError\<close>; any other
  exception is not caught.
\<close>

definition time_or_label :: "'e ephem \<Rightarrow> py_error + real \<Rightarrow> string \<Rightarrow> string io" where
  "time_or_label lib r label =
     io_try (io_bind (io_lift r) (\<lambda>t. io_return (fmt_datetime (ephem_localtime lib t))))
       (\<lambda>e. e = CircumpolarError) (io_return label)"

definition print_visinfo :: "'e ephem \<Rightarrow> 'e body \<Rightarrow> observer \<Rightarrow> 'e body io" where
  "print_visinfo lib body0 location =
     (let body1 = body_compute lib body0 location in
      if 0 < b_alt body1 then
        (case previous_rising lib location body1 of (rise_r, body2) \<Rightarrow>
         io_bind (time_or_label lib rise_r ''already up '') (\<lambda>r_time.
         case next_setting lib location body2 of (set_r, body3) \<Rightarrow>
         io_bind (time_or_label lib set_r ''doesn't set'') (\<lambda>s_time.
         let body4 = body_compute lib body3 location in
         io_seq (io_print (visible_row body4 r_time s_time)) (io_return body4))))
      else
        (case next_rising lib location body1 of (rise_r, body2) \<Rightarrow>
         io_bind (io_lift rise_r) (\<lambda>t_rise.
         case next_setting lib location body2 of (set_r, body3) \<Rightarrow>
         io_bind (io_lift set_r) (\<lambda>t_set.
         let body4 = body_compute lib body3 location;
             r_time = fmt_datetime (ephem_localtime lib t_rise);
             s_time = fmt_datetime (ephem_localtime lib t_set)
         in io_seq (io_print (hidden_row body4 r_time s_time)) (io_return body4)))))"

subsection \<open>Configuration, command line and the observer\<close>

definition py_str :: "'e ephem \<Rightarrow> json_scalar \<Rightarrow> string" where
  "py_str lib v = (case v of JStr s \<Rightarrow> s | JNum r \<Rightarrow> num_str lib r)"

text \<open>
  The extra-city table \<open>_mycity_data\<close>: every entry of \<open>cities\<close> is stored under its
  name, a later entry replacing an earlier one; without the key the table is empty.
\<close>

type_synonym city_table = "string \<rightharpoonup> string \<times> string \<times> real"

definition load_cities :: "'e ephem \<Rightarrow> config \<Rightarrow> city_table" where
  "load_cities lib config_data =
     (case cfg_cities config_data of
        None \<Rightarrow> Map.empty
      | Some objects \<Rightarrow>
          foldl (\<lambda>mycity_data i.
                   mycity_data(ce_name i \<mapsto>
                     (py_str lib (ce_latitude i), py_str lib (ce_longitude i), ce_elevation i)))
            Map.empty objects)"

definition default_city :: "config \<Rightarrow> string" where
  "default_city config_data =
     (case cfg_default_city config_data of None \<Rightarrow> ''Los Gatos'' | Some city \<Rightarrow> city)"

text \<open>\<open>args.city\<close>: the option, or the default city when the option is absent.\<close>

definition city_of_args :: "config \<Rightarrow> args \<Rightarrow> string" where
  "city_of_args config_data a =
     (case arg_city a of None \<Rightarrow> default_city config_data | Some c \<Rightarrow> c)"

text \<open>
  The library stamps a new observer with the current time; \<open>clock\<close> is that reading
  of the wall clock.
\<close>

definition library_city :: "'e ephem \<Rightarrow> real \<Rightarrow> string \<Rightarrow> py_error + observer" where
  "library_city lib clock name =
     (case ephem_city lib name of Inl e \<Rightarrow> Inl e | Inr site \<Rightarrow> Inr (site\<lparr>o_date := clock\<rparr>))"

definition additional_city ::
  "'e ephem \<Rightarrow> real \<Rightarrow> city_table \<Rightarrow> string \<Rightarrow> py_error + observer" where
  "additional_city lib clock mycity_data name =
     (case mycity_data name of
        None \<Rightarrow> Inl KeyError
      | Some (lat, lon, elevation) \<Rightarrow>
          (case angle_of_string lib lat of
             Inl e \<Rightarrow> Inl e
           | Inr la \<Rightarrow>
               (case angle_of_string lib lon of
                  Inl e \<Rightarrow> Inl e
                | Inr lo \<Rightarrow>
                    Inr ((ephem_Observer lib)
                      \<lparr>o_name := name, o_lat := la, o_lon := lo, o_elevation := elevation,
                       o_pressure := pressure_at lib elevation, o_date := clock\<rparr>))))"

definition not_found_message :: "string \<Rightarrow> string" where
  "not_found_message city =
     ''City '' @ [CHR 0x27] @ city @ [CHR 0x27] @ '' not found in global or local list''"

text \<open>
  The city lookup: the library's table first; on \<open>KeyError\<close> the extra-city table; on
  any exception from that, the message and \<open>exit(0)\<close>.
\<close>

definition resolve_site :: "'e ephem \<Rightarrow> real \<Rightarrow> city_table \<Rightarrow> string \<Rightarrow> observer io" where
  "resolve_site lib clock mycity_data city =
     io_try (io_lift (library_city lib clock city)) (\<lambda>e. e = KeyError)
       (io_try (io_lift (additional_city lib clock mycity_data city)) (\<lambda>e. True)
          (io_seq (io_print (not_found_message city)) (io_exit 0)))"

text \<open>
  \<open>if args.date: now = ephem.Date(args.date) else: now = ephem.now()\<close>. An absent
  option and the empty string are both false in Python.
\<close>

definition observation_time :: "'e ephem \<Rightarrow> real \<Rightarrow> args \<Rightarrow> real io" where
  "observation_time lib clock a =
     (case arg_date a of
        None \<Rightarrow> io_return clock
      | Some d \<Rightarrow> if d \<noteq> [] then io_lift (ephem_Date lib d) else io_return clock)"

subsection \<open>Sun, Moon and planets\<close>

definition table_header :: string where
  "table_header =
     ''       BODY        | VIS |   ALT  |   AZ   |    RISE     |     SET     |  MAG  |   RA   |   DEC  |''"

definition table_rule :: string where
  "table_rule =
     ''-------------------+-----+--------+--------+-------------+-------------+-------+--------+--------+''"

definition sun_moon_section :: "'e ephem \<Rightarrow> observer \<Rightarrow> unit io" where
  "sun_moon_section lib site =
     (let s_loc = ephem_Sun lib site; m_loc = ephem_Moon lib site in
      io_seq (io_print (CHR 0x0A # ''*** Sun and Moon ***''))
     (io_seq (io_print table_header)
     (io_seq (io_print table_rule)
     (io_bind (print_visinfo lib s_loc site) (\<lambda>_.
      io_bind (print_visinfo lib m_loc site) (\<lambda>_.
      io_print table_rule))))))"

text \<open>
  The planets are reported one after the other; each object is left as its report
  recomputed it, and the conjunction scan reads it in that state.
\<close>

fun print_visinfo_each :: "'e ephem \<Rightarrow> observer \<Rightarrow> 'e body list \<Rightarrow> 'e body list io" where
  "print_visinfo_each lib site [] out = (Ok [], out)"
| "print_visinfo_each lib site (b # bs) out =
     (case print_visinfo lib b site out of
        (Ok b', out') \<Rightarrow>
          (case print_visinfo_each lib site bs out' of
             (Ok bs', out'') \<Rightarrow> (Ok (b' # bs'), out'')
           | (Raised e, out'') \<Rightarrow> (Raised e, out'')
           | (Exited n, out'') \<Rightarrow> (Exited n, out''))
      | (Raised e, out') \<Rightarrow> (Raised e, out')
      | (Exited n, out') \<Rightarrow> (Exited n, out'))"

definition planets_section :: "'e ephem \<Rightarrow> observer \<Rightarrow> 'e body list io" where
  "planets_section lib site =
     io_seq (io_print (CHR 0x0A # ''*** Planets ***''))
    (io_seq (io_print table_header)
    (io_seq (io_print table_rule)
    (io_bind
       (print_visinfo_each lib site
          [ephem_Mercury lib, ephem_Venus lib, ephem_Mars lib, ephem_Jupiter lib,
           ephem_Saturn lib, ephem_Uranus lib, ephem_Neptune lib, ephem_Pluto lib])
       (\<lambda>planets. io_seq (io_print table_rule) (io_return planets)))))"

subsection \<open>Lunar phase\<close>

text \<open>
  \<open>lunation = (now-prev_new)/(next_new-prev_new)\<close>: two float subtractions and a
  float division, which raises \<open>ZeroDivisionError\<close> on a zero divisor.
\<close>

definition lunation_of :: "real \<Rightarrow> real \<Rightarrow> real \<Rightarrow> py_error + real" where
  "lunation_of now prev_new next_new =
     (if fsub next_new prev_new = 0 then Inl ZeroDivisionError
      else Inr (fdiv (fsub now prev_new) (fsub next_new prev_new)))"

definition was_just_line :: "'e ephem \<Rightarrow> real \<Rightarrow> real \<Rightarrow> string" where
  "was_just_line lib now lunation =
     (if lunation < 0.25 then
        ''Was just New Moon at '' @ fmt_date lib (previous_new_moon lib now) @ '' UT''
      else if lunation < 0.5 then
        ''Was just First Quarter at '' @
        fmt_date lib (previous_first_quarter_moon lib now) @ '' UT''
      else if lunation < 0.75 then
        ''Was just Full Moon at '' @ fmt_date lib (previous_full_moon lib now) @ '' UT''
      else
        ''Was just Last Quarter at '' @
        fmt_date lib (previous_last_quarter_moon lib now) @ '' UT'')"

definition next_phase_line :: "'e ephem \<Rightarrow> string \<Rightarrow> real \<Rightarrow> string" where
  "next_phase_line lib label date =
     label @ '': '' @ fmt_date lib date @ '' UT ('' @
     fmt_fulldatetime (ephem_localtime lib date) @ '' Local time)''"

definition lunar_phase_section :: "'e ephem \<Rightarrow> 'e body \<Rightarrow> real \<Rightarrow> unit io" where
  "lunar_phase_section lib m now =
     io_seq (io_print (CHR 0x0A # ''*** Lunar Phase information: ***''))
     (let prev_new = previous_new_moon lib now;
          next_new = next_new_moon lib now;
          next_first = next_first_quarter_moon lib now;
          next_full = next_full_moon lib now;
          next_last = next_last_quarter_moon lib now;
          phase = b_moon_phase m
      in io_bind (io_lift (lunation_of now prev_new next_new)) (\<lambda>lunation.
         io_seq (io_print (''Current lunar illumination is '' @ fmt_f 1 (fmul phase 100) @
                           ''%, lunation is '' @ fmt_f 4 lunation))
        (io_seq (io_print (was_just_line lib now lunation))
        (io_seq (io_print (next_phase_line lib ''New Moon     '' next_new))
        (io_seq (io_print (next_phase_line lib ''First Quarter'' next_first))
        (io_seq (io_print (next_phase_line lib ''Full Moon    '' next_full))
                (io_print (next_phase_line lib ''Last Quarter '' next_last))))))))"

subsection \<open>Conjunction scan\<close>

definition threshold :: real where
  "threshold = fdiv (fmul 15.0 math_pi) 180.0"

definition close_header :: string where
  "close_header = CHR 0x0A # ''*** Close Approaches (may not be visible) ***''"

definition sep_of :: "'e ephem \<Rightarrow> 'e body list \<Rightarrow> nat \<Rightarrow> nat \<Rightarrow> real" where
  "sep_of lib bodies i j =
     ephem_separation lib (b_az (bodies ! i), b_alt (bodies ! i))
       (b_az (bodies ! j), b_alt (bodies ! j))"

definition pair_line :: "'e ephem \<Rightarrow> 'e body list \<Rightarrow> nat \<times> nat \<Rightarrow> string" where
  "pair_line lib bodies p =
     (case p of (i, j) \<Rightarrow>
        fmt_s 7 (b_name (bodies ! i)) @ '' to '' @ fmt_s 7 (b_name (bodies ! j)) @
        '' = '' @ fmt_angle (sep_of lib bodies i j) @ '' (dd:mm)'')"

text \<open>
  The inner loop \<open>for j in range(i+1, n)\<close> and the outer loop \<open>for i in range(n)\<close>, over
  the lists of their index values; the state is \<open>count\<close> and the output.
\<close>

fun scan_inner ::
  "'e ephem \<Rightarrow> 'e body list \<Rightarrow> nat \<Rightarrow> nat list \<Rightarrow> nat \<times> string list \<Rightarrow> nat \<times> string list" where
  "scan_inner lib bodies i [] st = st"
| "scan_inner lib bodies i (j # js) (count, out) =
     (if sep_of lib bodies i j < threshold then
        scan_inner lib bodies i js
          (count + 1,
           (if count = 0 then out @ [close_header] else out) @ [pair_line lib bodies (i, j)])
      else scan_inner lib bodies i js (count, out))"

fun scan_outer ::
  "'e ephem \<Rightarrow> 'e body list \<Rightarrow> nat list \<Rightarrow> nat \<times> string list \<Rightarrow> nat \<times> string list" where
  "scan_outer lib bodies [] st = st"
| "scan_outer lib bodies (i # is) st =
     scan_outer lib bodies is (scan_inner lib bodies i [i + 1 ..< length bodies] st)"

definition conjunction_scan :: "'e ephem \<Rightarrow> 'e body list \<Rightarrow> unit io" where
  "conjunction_scan lib bodies =
     (\<lambda>out. (Ok (), snd (scan_outer lib bodies [0 ..< length bodies] (0, out))))"

definition m45_x :: string where
  "m45_x = ''M45,f|U,3:47:0,24:07:0,1.6,2000,0''"

definition conjunction_section ::
  "'e ephem \<Rightarrow> observer \<Rightarrow> 'e body \<Rightarrow> 'e body \<Rightarrow> 'e body list \<Rightarrow> unit io" where
  "conjunction_section lib site s m planets =
     io_bind (io_lift (ephem_readdb lib m45_x)) (\<lambda>m45_0.
       let m45 = body_compute lib m45_0 site
       in conjunction_scan lib ([s, m] @ planets @ [m45]))"





subsection \<open>Comets and satellites\<close>

definition comet_header :: string where
  "comet_header =
     ''      COMET        | VIS |   ALT  |   AZ   |    RISE     |     SET     |  MAG  |   RA   |   DEC  |''"

fun comet_loop :: "'e ephem \<Rightarrow> observer \<Rightarrow> comet_entry list \<Rightarrow> unit io" where
  "comet_loop lib site [] out = (Ok (), out)"
| "comet_loop lib site (i # objects) out =
     (if cm_display i then
        (case io_bind (io_lift (ephem_readdb lib (cm_db_info i)))
                (\<lambda>comet. print_visinfo lib comet site) out of
           (Ok _, out') \<Rightarrow> comet_loop lib site objects out'
         | (Raised e, out') \<Rightarrow> (Raised e, out')
         | (Exited n, out') \<Rightarrow> (Exited n, out'))
      else comet_loop lib site objects out)"

definition comets_section :: "'e ephem \<Rightarrow> config \<Rightarrow> observer \<Rightarrow> unit io" where
  "comets_section lib config_data site =
     io_try
       (case cfg_comets config_data of
          None \<Rightarrow> io_raise KeyError
        | Some objects \<Rightarrow>
            io_seq (io_print comet_header)
           (io_seq (io_print table_rule)
           (io_seq (comet_loop lib site objects)
                   (io_print table_rule))))
       (\<lambda>e. e = KeyError) (io_return ())"

definition pass_rule :: string where
  "pass_rule = ''-------------+--------+-------------+--------+-------------+--------+''"

text \<open>
  The arguments of the pass row, formatted left to right; a missing event raises where
  it is formatted (\<open>None.tuple()\<close>, \<open>180 * None\<close>).
\<close>

definition fmt_shortdate_opt :: "'e ephem \<Rightarrow> real option \<Rightarrow> string io" where
  "fmt_shortdate_opt lib d =
     (case d of None \<Rightarrow> io_raise AttributeError | Some t \<Rightarrow> io_return (fmt_shortdate lib t))"

definition fmt_angle_opt :: "real option \<Rightarrow> string io" where
  "fmt_angle_opt a =
     (case a of None \<Rightarrow> io_raise TypeError | Some x \<Rightarrow> io_return (fmt_angle x))"

definition pass_row :: "'e ephem \<Rightarrow> pass_info \<Rightarrow> string io" where
  "pass_row lib info =
     (case info of (i0, i1, i2, i3, i4, i5) \<Rightarrow>
        io_bind (fmt_shortdate_opt lib i0) (\<lambda>f0.
        io_bind (fmt_angle_opt i1) (\<lambda>f1.
        io_bind (fmt_shortdate_opt lib i2) (\<lambda>f2.
        io_bind (fmt_angle_opt i3) (\<lambda>f3.
        io_bind (fmt_shortdate_opt lib i4) (\<lambda>f4.
        io_bind (fmt_angle_opt i5) (\<lambda>f5.
        io_return ('' '' @ f0 @ '' | '' @ f1 @ '' | '' @ f2 @ '' | '' @ f3 @ '' | '' @
                   f4 @ '' | '' @ f5 @ '' |''))))))))"

definition satellite_report :: "'e ephem \<Rightarrow> observer \<Rightarrow> satellite_entry \<Rightarrow> unit io" where
  "satellite_report lib site i =
     io_bind
       (io_lift (ephem_readtle lib (st_name i) (st_tle_line1 i) (st_tle_line2 i)))
       (\<lambda>satellite0.
          case next_pass lib site satellite0 of (info_r, satellite) \<Rightarrow>
            io_try
              (io_bind (io_lift info_r) (\<lambda>info.
               io_seq (io_print (CHR 0x0A # b_name satellite @ '' visibility -- Next Pass ''))
              (io_seq (io_print
                 ''   RISE @        AZ      MAX ALT @      AZ        SET @        AZ'')
              (io_seq (io_print pass_rule)
              (io_bind (pass_row lib info) (\<lambda>row.
               io_seq (io_print row) (io_print pass_rule)))))))
              (\<lambda>e. True)
              (io_print (CHR 0x0A # b_name satellite @
                 '' always below your horizon (check orbital elements)'')))"

fun satellite_loop :: "'e ephem \<Rightarrow> observer \<Rightarrow> satellite_entry list \<Rightarrow> unit io" where
  "satellite_loop lib site [] out = (Ok (), out)"
| "satellite_loop lib site (i # objects) out =
     (if st_display i then
        (case satellite_report lib site i out of
           (Ok _, out') \<Rightarrow> satellite_loop lib site objects out'
         | (Raised e, out') \<Rightarrow> (Raised e, out')
         | (Exited n, out') \<Rightarrow> (Exited n, out'))
      else satellite_loop lib site objects out)"

definition satellites_section :: "'e ephem \<Rightarrow> config \<Rightarrow> observer \<Rightarrow> unit io" where
  "satellites_section lib config_data site =
     io_try
       (case cfg_satellites config_data of
          None \<Rightarrow> io_raise KeyError
        | Some objects \<Rightarrow> satellite_loop lib site objects)
       (\<lambda>e. e = KeyError) (io_return ())"

subsection \<open>The program\<close>

text \<open>Everything after the observer and the instant are fixed (\<open>site.date = now\<close>).\<close>

definition report :: "'e ephem \<Rightarrow> config \<Rightarrow> observer \<Rightarrow> real \<Rightarrow> unit io" where
  "report lib config_data site now =
     io_seq (io_print (''***** Currently at '' @ o_name site @ '' ('' @
               fmt_fulldatetime (ephem_localtime lib (o_date site)) @ '') *****''))
     (let s = ephem_Sun lib site; m = ephem_Moon lib site in
      io_seq (sun_moon_section lib site)
     (io_seq (lunar_phase_section lib m now)
     (io_bind (planets_section lib site) (\<lambda>planets.
      io_seq (conjunction_section lib site s m planets)
     (io_seq (io_print (CHR 0x0A # ''*** Special Objects ***''))
     (io_seq (comets_section lib config_data site)
             (satellites_section lib config_data site)))))))"

text \<open>
  The script from the loaded configuration and the parsed command line: its output and
  how it ends. \<open>clock\<close> is the wall clock, read by \<open>ephem.now()\<close> and by the library
  when it creates an observer.
\<close>

definition main :: "'e ephem \<Rightarrow> real \<Rightarrow> config \<Rightarrow> args \<Rightarrow> unit result \<times> string list" where
  "main lib clock config_data a =
     io_bind (resolve_site lib clock (load_cities lib config_data) (city_of_args config_data a))
       (\<lambda>site0.
          io_bind (observation_time lib clock a) (\<lambda>now.
            report lib config_data (site0\<lparr>o_date := now\<rparr>) now)) []"

subsection \<open>A sample library and configuration\<close>

text \<open>
  One concrete library, for exhibiting runs: a site in polar night (the Sun never
  rises), bodies whose altitude is their \<open>b_elements\<close>, circumpolar above one radian,
  and a separation that adds the differences of the coordinates.
\<close>

definition sample_body :: "string \<Rightarrow> real \<Rightarrow> real body" where
  "sample_body name e =
     \<lparr>b_name = name, b_alt = 0, b_az = 0, b_mag = 1.5, b_ra = 0, b_dec = 0,
      b_moon_phase = 0.5, b_elements = e\<rparr>"

definition sample_site :: observer where
  "sample_site =
     \<lparr>o_name = ''Boston'', o_lat = 0.7, o_lon = - 1.2, o_elevation = 6, o_pressure = 1010,
      o_date = 0\<rparr>"

definition sample_localtime :: "real \<Rightarrow> datetime" where
  "sample_localtime t =
     \<lparr>dt_year = 2024, dt_month = 3, dt_day = 25, dt_hour = \<lfloor>t\<rfloor> mod 24, dt_minute = 0,
      dt_second = 0\<rparr>"

definition sample_lib :: "real ephem" where
  "sample_lib =
     \<lparr>ephem_city = (\<lambda>name. if name = ''Boston'' then Inr sample_site else Inl KeyError),
      ephem_Observer = sample_site\<lparr>o_name := []\<rparr>,
      angle_of_string = (\<lambda>s. if s = ''42:21'' then Inr 0.7 else Inl ValueError),
      pressure_at = (\<lambda>h. 1010),
      num_str = (\<lambda>x. ''0''),
      ephem_Date = (\<lambda>s. if s = ''2024/03/25 04:00'' then Inr 4 else Inl ValueError),
      ephem_localtime = sample_localtime,
      date_tuple = (\<lambda>t. (2024, 3, 25, \<lfloor>t\<rfloor> mod 24, 0, 0)),
      ephem_Sun = (\<lambda>site. sample_body ''Sun'' (- 2)),
      ephem_Moon = (\<lambda>site. sample_body ''Moon'' 0.5),
      ephem_Mercury = sample_body ''Mercury'' (- 0.5),
      ephem_Venus = sample_body ''Venus'' (- 0.5),
      ephem_Mars = sample_body ''Mars'' 0.5,
      ephem_Jupiter = sample_body ''Jupiter'' 0.5,
      ephem_Saturn = sample_body ''Saturn'' 0.5,
      ephem_Uranus = sample_body ''Uranus'' 0.5,
      ephem_Neptune = sample_body ''Neptune'' 0.5,
      ephem_Pluto = sample_body ''Pluto'' 0.5,
      body_compute = (\<lambda>b site. b\<lparr>b_alt := b_elements b\<rparr>),
      previous_rising = (\<lambda>site b.
        (if 1 < b_elements b then Inl CircumpolarError else Inr (o_date site - 0.25),
         b\<lparr>b_alt := 0\<rparr>)),
      next_rising = (\<lambda>site b.
        (if b_elements b < - 1 then Inl CircumpolarError else Inr (o_date site + 1),
         b\<lparr>b_alt := 0\<rparr>)),
      next_setting = (\<lambda>site b.
        (if 1 < b_elements b then Inl CircumpolarError else Inr (o_date site + 2),
         b\<lparr>b_alt := 0\<rparr>)),
      previous_new_moon = (\<lambda>t. t - 10),
      next_new_moon = (\<lambda>t. t + 19.5),
      next_first_quarter_moon = (\<lambda>t. t + 27),
      next_full_moon = (\<lambda>t. t + 5),
      next_last_quarter_moon = (\<lambda>t. t + 12),
      previous_first_quarter_moon = (\<lambda>t. t - 3),
      previous_full_moon = (\<lambda>t. t - 25),
      previous_last_quarter_moon = (\<lambda>t. t - 17),
      ephem_separation = (\<lambda>p q. \<bar>fst p - fst q\<bar> + \<bar>snd p - snd q\<bar>),
      ephem_readdb = (\<lambda>s. if s = m45_x then Inr (sample_body ''M45'' 0.4) else Inl ValueError),
      ephem_readtle = (\<lambda>n l1 l2. Inr (sample_body n 0)),
      next_pass = (\<lambda>site b. (Inl ValueError, b))\<rparr>"

definition sample_config :: config where
  "sample_config =
     \<lparr>cfg_cities = Some [\<lparr>ce_name = ''Atlantis'', ce_latitude = JStr ''north'',
                          ce_longitude = JNum 0, ce_elevation = 0\<rparr>],
      cfg_default_city = Some ''Boston'',
      cfg_comets = None,
      cfg_satellites = None\<rparr>"

text \<open>
  Four bodies for the conjunction scan: Jupiter at exactly the threshold from Venus,
  Mars one double below the threshold from Venus, M45 far from all three.
\<close>

definition sample_sky :: "real body list" where
  "sample_sky =
     [(sample_body ''Venus'' 0)\<lparr>b_az := 0, b_alt := 0\<rparr>,
      (sample_body ''Jupiter'' 0)\<lparr>b_az := 4716158501352293 / 18014398509481984, b_alt := 0\<rparr>,
      (sample_body ''Mars'' 0)\<lparr>b_az := 0, b_alt := 1179039625338073 / 4503599627370496\<rparr>,
      (sample_body ''M45'' 0)\<lparr>b_az := 2, b_alt := 1\<rparr>]"

subsection \<open>Theorems\<close>

subsubsection \<open>Unfolding and evaluation\<close>

lemmas io_defs = io_return_def io_raise_def io_exit_def io_print_def io_bind_def io_seq_def
  io_lift_def io_try_def

lemmas sample_defs = sample_lib_def sample_body_def sample_site_def sample_localtime_def

lemma replicate_numeral: "replicate (numeral k) x = x # replicate (pred_numeral k) x"
  by (simp add: numeral_eq_Suc)

lemmas fmt_defs = replicate_numeral fmt_name_def fmt_datetime_def fmt_0d_def fmt_d_def
  pad_left_def pad_right_def str_int_def nat_digits.simps digit_char_def

subsubsection \<open>Conjunction scan\<close>










subsubsection \<open>Visibility reporter\<close>






lemma print_visinfo_below:
  assumes "\<not> 0 < b_alt (body_compute lib body location)"
  shows "print_visinfo lib body location out =
     (case next_rising lib location (body_compute lib body location) of (rise_r, body2) \<Rightarrow>
      case rise_r of
        Inl e \<Rightarrow> (Raised e, out)
      | Inr t_rise \<Rightarrow>
          (case next_setting lib location body2 of (set_r, body3) \<Rightarrow>
           case set_r of
             Inl e \<Rightarrow> (Raised e, out)
           | Inr t_set \<Rightarrow>
               (Ok (body_compute lib body3 location),
                out @ [hidden_row (body_compute lib body3 location)
                         (fmt_datetime (ephem_localtime lib t_rise))
                         (fmt_datetime (ephem_localtime lib t_set))])))"
  using assms
  by (simp add: print_visinfo_def Let_def io_defs split: prod.splits sum.splits)



text \<open>
  Claim C4. In the below-horizon branch nothing guards \<open>next_rising\<close> and
  \<open>next_setting\<close>: an exception of either query, \<open>CircumpolarError\<close> for a body that
  never rises included, leaves \<open>print_visinfo\<close> as raised, and no row is printed.
\<close>

theorem below_horizon_failure_propagates:
  assumes "\<not> 0 < b_alt (body_compute lib body location)"
    and "fst (next_rising lib location (body_compute lib body location)) = Inl e \<or>
         (\<exists>t. fst (next_rising lib location (body_compute lib body location)) = Inr t) \<and>
         fst (next_setting lib location
                (snd (next_rising lib location (body_compute lib body location)))) = Inl e"
  shows "print_visinfo lib body location out = (Raised e, out)"
  using assms(2) unfolding print_visinfo_below [OF assms(1)]
  by (auto split: prod.splits sum.splits)

theorem below_horizon_failure_propagates_witness:
  "\<not> 0 < b_alt (body_compute sample_lib (sample_body ''Sun'' (- 2)) sample_site) \<and>
   fst (next_rising sample_lib sample_site
          (body_compute sample_lib (sample_body ''Sun'' (- 2)) sample_site)) =
     Inl CircumpolarError \<and>
   print_visinfo sample_lib (sample_body ''Sun'' (- 2)) sample_site [] =
     (Raised CircumpolarError, [])"
proof -
  have alt: "\<not> 0 < b_alt (body_compute sample_lib (sample_body ''Sun'' (- 2)) sample_site)"
    by (simp add: sample_defs)
  have rise: "fst (next_rising sample_lib sample_site
          (body_compute sample_lib (sample_body ''Sun'' (- 2)) sample_site)) =
     Inl CircumpolarError"
    by (simp add: sample_defs)
  show ?thesis
    using below_horizon_failure_propagates [OF alt disjI1, OF rise] alt rise by simp
qed

subsubsection \<open>Comets, city lookup and the date option\<close>

lemma comet_loop_filter:
  "comet_loop lib site objects out = comet_loop lib site (filter cm_display objects) out"
proof (induction objects arbitrary: out)
  case Nil
  then show ?case by simp
next
  case (Cons i objects)
  then show ?case
    by (cases "cm_display i") (simp_all split: prod.splits result.splits)
qed

text \<open>
  Claim C7. A comet entry whose display flag is false is skipped: the comet loop, and
  the comet section with its header and rules, behave exactly as on the configuration
  without those entries, whatever their \<open>db_info\<close> is and whatever the library would
  do with it.
\<close>

theorem hidden_comets_skipped:
  "comet_loop lib site objects out = comet_loop lib site (filter cm_display objects) out \<and>
   comets_section lib (config_data\<lparr>cfg_comets := Some objects\<rparr>) site out =
   comets_section lib (config_data\<lparr>cfg_comets := Some (filter cm_display objects)\<rparr>) site out"
  using comet_loop_filter [of lib site objects]
  by (simp add: comets_section_def io_defs)

theorem hidden_comets_skipped_witness:
  "comets_section sample_lib
     (sample_config\<lparr>cfg_comets := Some [\<lparr>cm_display = False, cm_db_info = ''not an orbit''\<rparr>]\<rparr>)
     sample_site [] =
   (Ok (), [comet_header, table_rule, table_rule]) \<and>
   ephem_readdb sample_lib ''not an orbit'' = Inl ValueError"
proof -
  have "comets_section sample_lib (sample_config\<lparr>cfg_comets := Some []\<rparr>) sample_site [] =
      (Ok (), [comet_header, table_rule, table_rule])"
    by (simp add: comets_section_def io_defs)
  moreover have "ephem_readdb sample_lib ''not an orbit'' = Inl ValueError"
    by (simp add: sample_lib_def m45_x_def)
  ultimately show ?thesis
    using hidden_comets_skipped [of sample_lib sample_site
        "[\<lparr>cm_display = False, cm_db_info = ''not an orbit''\<rparr>]" "[]" sample_config]
    by simp
qed

lemma resolve_site_not_found:
  assumes "ephem_city lib city = Inl KeyError"
    and "additional_city lib clock mycity_data city = Inl e"
  shows "resolve_site lib clock mycity_data city out =
     (Exited 0, out @ [not_found_message city])"
  using assms by (simp add: resolve_site_def library_city_def io_defs)

text \<open>
  Claim C6. When the library's city table raises \<open>KeyError\<close> for the requested city and
  the extra-city table has no entry for it, the program prints exactly the line
  \<open>City '<name>' not found in global or local list\<close> and exits with status 0.
\<close>

theorem unknown_city_message_exit_0:
  assumes "ephem_city lib (city_of_args config_data a) = Inl KeyError"
    and "load_cities lib config_data (city_of_args config_data a) = None"
  shows "main lib clock config_data a =
     (Exited 0,
      [''City '' @ [CHR 0x27] @ city_of_args config_data a @ [CHR 0x27] @
       '' not found in global or local list''])"
proof -
  have "additional_city lib clock (load_cities lib config_data) (city_of_args config_data a) =
      Inl KeyError"
    using assms(2) by (simp add: additional_city_def)
  from resolve_site_not_found [OF assms(1) this, of "[]"] show ?thesis
    by (simp add: main_def io_bind_def not_found_message_def)
qed

theorem unknown_city_message_exit_0_witness:
  "ephem_city sample_lib ''Nowhereville'' = Inl KeyError \<and>
   load_cities sample_lib sample_config ''Nowhereville'' = None \<and>
   main sample_lib 0 sample_config \<lparr>arg_city = Some ''Nowhereville'', arg_date = None\<rparr> =
     (Exited 0,
      [''City '' @ [CHR 0x27] @ ''Nowhereville'' @ [CHR 0x27] @
       '' not found in global or local list''])"
proof -
  have c: "city_of_args sample_config \<lparr>arg_city = Some ''Nowhereville'', arg_date = None\<rparr> =
      ''Nowhereville''"
    by (simp add: city_of_args_def)
  have h1: "ephem_city sample_lib ''Nowhereville'' = Inl KeyError"
    by (simp add: sample_lib_def)
  have h2: "load_cities sample_lib sample_config ''Nowhereville'' = None"
    by (simp add: load_cities_def sample_config_def)
  show ?thesis
    using unknown_city_message_exit_0 [of sample_lib sample_config
        "\<lparr>arg_city = Some ''Nowhereville'', arg_date = None\<rparr>" 0] h1 h2
    unfolding c by simp
qed

text \<open>
  Claim C9. The fallback catches every exception of the extra-city lookup: whatever
  \<open>additional_city\<close> raises, a missing key or a failure on a malformed entry, the
  program prints the not-found line and exits with status 0.
\<close>

theorem malformed_city_reported_not_found:
  assumes "ephem_city lib (city_of_args config_data a) = Inl KeyError"
    and "additional_city lib clock (load_cities lib config_data) (city_of_args config_data a) =
         Inl e"
  shows "main lib clock config_data a =
     (Exited 0,
      [''City '' @ [CHR 0x27] @ city_of_args config_data a @ [CHR 0x27] @
       '' not found in global or local list''])"
  using resolve_site_not_found [OF assms, of "[]"]
  by (simp add: main_def io_bind_def not_found_message_def)

theorem malformed_city_reported_not_found_witness:
  "ephem_city sample_lib ''Atlantis'' = Inl KeyError \<and>
   load_cities sample_lib sample_config ''Atlantis'' = Some (''north'', ''0'', 0) \<and>
   additional_city sample_lib 0 (load_cities sample_lib sample_config) ''Atlantis'' =
     Inl ValueError \<and>
   main sample_lib 0 sample_config \<lparr>arg_city = Some ''Atlantis'', arg_date = None\<rparr> =
     (Exited 0,
      [''City '' @ [CHR 0x27] @ ''Atlantis'' @ [CHR 0x27] @
       '' not found in global or local list''])"
proof -
  have c: "city_of_args sample_config \<lparr>arg_city = Some ''Atlantis'', arg_date = None\<rparr> =
      ''Atlantis''"
    by (simp add: city_of_args_def)
  have h1: "ephem_city sample_lib ''Atlantis'' = Inl KeyError"
    by (simp add: sample_lib_def)
  have t: "load_cities sample_lib sample_config ''Atlantis'' = Some (''north'', ''0'', 0)"
    by (simp add: load_cities_def sample_config_def py_str_def sample_lib_def)
  have h2: "additional_city sample_lib 0 (load_cities sample_lib sample_config) ''Atlantis'' =
      Inl ValueError"
    unfolding additional_city_def t by (simp add: sample_lib_def)
  show ?thesis
    using malformed_city_reported_not_found [of sample_lib sample_config
        "\<lparr>arg_city = Some ''Atlantis'', arg_date = None\<rparr>" 0 ValueError] h1 h2 t
    unfolding c by simp
qed

lemma resolve_site_clock:
  "resolve_site lib clock mycity_data city out =
     (case resolve_site lib 0 mycity_data city out of
        (Ok site, out') \<Rightarrow> (Ok (site\<lparr>o_date := clock\<rparr>), out')
      | r \<Rightarrow> r)"
  by (simp add: resolve_site_def library_city_def additional_city_def io_defs
      split: sum.splits option.splits prod.splits)

text \<open>
  Claim C8, as amended. With the same library, configuration and city, and an
  explicit \<open>--date\<close> that is not the empty string, the output and the way the program
  ends do not depend on the wall clock. (The empty string is false in Python, so
  \<open>--date ""\<close> takes the branch that reads the clock: the counterexample below.)
\<close>

theorem explicit_date_ignores_clock:
  assumes "arg_date a = Some d" and "d \<noteq> []"
  shows "main lib clock1 config_data a = main lib clock2 config_data a"
proof -
  have at_zero: "main lib clock config_data a = main lib 0 config_data a" for clock
    unfolding main_def io_bind_def
    using assms
    by (subst resolve_site_clock)
      (simp add: observation_time_def io_lift_def io_return_def io_raise_def
        split: prod.splits result.splits sum.splits)
  have "main lib clock1 config_data a = main lib 0 config_data a"
    by (rule at_zero)
  also have "\<dots> = main lib clock2 config_data a"
    by (rule at_zero [symmetric])
  finally show ?thesis .
qed

text \<open>
  The claim as first stated, for every supplied \<open>--date\<close>, fails at the empty string:
  in the sample library the run with \<open>--date ""\<close> prints the local time of the clock
  reading in its first line, so two clock readings give two outputs.
\<close>

lemma sample_run_at:
  "main sample_lib clock sample_config \<lparr>arg_city = None, arg_date = Some []\<rparr> =
   (Raised CircumpolarError,
    [''***** Currently at Boston ('' @
       fmt_fulldatetime (sample_localtime clock) @ '') *****'',
     CHR 0x0A # ''*** Sun and Moon ***'', table_header, table_rule])"
  by (simp add: main_def resolve_site_def library_city_def city_of_args_def default_city_def
      observation_time_def report_def sun_moon_section_def print_visinfo_def Let_def io_defs
      sample_lib_def sample_config_def sample_body_def sample_site_def)

theorem explicit_date_ignores_clock_counterexample:
  "main sample_lib 1 sample_config \<lparr>arg_city = None, arg_date = Some []\<rparr> \<noteq>
   main sample_lib 2 sample_config \<lparr>arg_city = None, arg_date = Some []\<rparr>"
  unfolding sample_run_at
  by (simp add: fmt_fulldatetime_def sample_localtime_def fmt_defs)

theorem explicit_date_ignores_clock_witness:
  "arg_date \<lparr>arg_city = None, arg_date = Some ''2024/03/25 04:00''\<rparr> = Some ''2024/03/25 04:00'' \<and>
   ''2024/03/25 04:00'' \<noteq> [] \<and>
   main sample_lib 1 sample_config \<lparr>arg_city = None, arg_date = Some ''2024/03/25 04:00''\<rparr> =
   main sample_lib 2 sample_config \<lparr>arg_city = None, arg_date = Some ''2024/03/25 04:00''\<rparr>"
  using explicit_date_ignores_clock [of "\<lparr>arg_city = None, arg_date = Some ''2024/03/25 04:00''\<rparr>"
      "''2024/03/25 04:00''" sample_lib 1 sample_config 2]
  by simp

end
